theory Spec2Isabelle
  imports Main "HOL-Library.Word"
begin

section \<open>Configuration\<close>

text \<open>
  The planner of \<^verbatim>\<open>planner.cpp\<close> computes with C++ \<^verbatim>\<open>int\<close>, taken here as a 32-bit
  two's complement word: \<open>+\<close> and \<open>-\<close> wrap around, \<open>sint\<close> reads the signed value and
  \<open><s\<close> is the signed comparison. Inside the range of \<^verbatim>\<open>int\<close> this is the arithmetic
  of the program; where a difference leaves the range the C++ standard gives the
  operation no meaning, and the model shows what two's complement hardware computes.
\<close>

type_synonym cint = "32 word"

definition CHANGE_BUDGET_MINUTES :: cint where
  "CHANGE_BUDGET_MINUTES = 4 * 60"

definition HYSTERESIS_THRESHOLD_DB :: cint where
  "HYSTERESIS_THRESHOLD_DB = 2"

section \<open>Data structures\<close>

text \<open>The field \<^verbatim>\<open>id\<close> of the source is \<open>id_ap\<close> here, \<open>id\<close> being the identity of HOL.\<close>

record AccessPoint =
  id_ap :: string
  channel :: cint
  power_db :: cint
  last_change_time_minutes :: cint

text \<open>The default member initialiser of \<^verbatim>\<open>last_change_time_minutes\<close>.\<close>

definition default_last_change_time_minutes :: cint where
  "default_last_change_time_minutes = - CHANGE_BUDGET_MINUTES - 1"

record ChangeRequest =
  new_channel :: "cint option"
  new_power_db :: "cint option"
  is_emergency :: bool

text \<open>\<^verbatim>\<open>std::map<std::string, AccessPoint> network_state\<close>\<close>

type_synonym network_state = "string \<rightharpoonup> AccessPoint"

text \<open>
  The lines written to \<^verbatim>\<open>std::cout\<close>, one constructor per output statement, with the
  values the statement prints. The rule that turned a request down is visible to the
  caller in these lines only: the function itself returns a \<^verbatim>\<open>bool\<close>.
\<close>

datatype message =
    Added_AP string cint cint
  | Reject_Not_Found string
  | Processing_Request string cint
  | Reject_Time_Window
  | Reject_Budget cint
  | Reject_Hysteresis cint
  | Accept_All_Passed
  | Applied_Channel cint
  | Applied_Power cint
  | Info_No_Change

text \<open>\<^verbatim>\<open>std::map::at\<close> throws \<^verbatim>\<open>std::out_of_range\<close> for a key that is not in the map.\<close>

datatype error = out_of_range

text \<open>
  What one call of \<^verbatim>\<open>process_request\<close> leaves behind: the value it returns, the lines
  it printed, and the map after the call.
\<close>

record outcome =
  returned :: bool
  printed :: "message list"
  state_after :: network_state

section \<open>The rules engine\<close>

text \<open>\<^verbatim>\<open>std::abs\<close> on \<^verbatim>\<open>int\<close>.\<close>

definition std_abs :: "cint \<Rightarrow> cint" where
  "std_abs x = (if x <s 0 then - x else x)"

definition add_ap :: "network_state \<Rightarrow> AccessPoint \<Rightarrow> message list \<times> network_state" where
  "add_ap network_state ap =
     ([Added_AP (id_ap ap) (channel ap) (power_db ap)], network_state(id_ap ap \<mapsto> ap))"

definition get_ap_state :: "network_state \<Rightarrow> string \<Rightarrow> error + AccessPoint" where
  "get_ap_state network_state ap_id =
     (case network_state ap_id of None \<Rightarrow> Inl out_of_range | Some ap \<Rightarrow> Inr ap)"

text \<open>
  The three statements after "All Rules Passed" (lines 96 to 100, 102 to 106 and 108
  to 112 of \<^verbatim>\<open>planner.cpp\<close>). Each takes the record \<^verbatim>\<open>ap\<close> and the flag \<^verbatim>\<open>changed\<close> as
  they stand and gives them back with the lines it printed.
\<close>

definition apply_channel ::
  "ChangeRequest \<Rightarrow> AccessPoint \<times> bool \<Rightarrow> (AccessPoint \<times> bool) \<times> message list" where
  "apply_channel request s =
     (case s of (ap, changed) \<Rightarrow>
        (case new_channel request of
           Some c \<Rightarrow>
             if channel ap \<noteq> c
             then ((ap\<lparr>channel := c\<rparr>, True), [Applied_Channel c])
             else ((ap, changed), [])
         | None \<Rightarrow> ((ap, changed), [])))"

definition apply_power ::
  "ChangeRequest \<Rightarrow> AccessPoint \<times> bool \<Rightarrow> (AccessPoint \<times> bool) \<times> message list" where
  "apply_power request s =
     (case s of (ap, changed) \<Rightarrow>
        (case new_power_db request of
           Some p \<Rightarrow>
             if power_db ap \<noteq> p
             then ((ap\<lparr>power_db := p\<rparr>, True), [Applied_Power p])
             else ((ap, changed), [])
         | None \<Rightarrow> ((ap, changed), [])))"

definition stamp_change :: "cint \<Rightarrow> AccessPoint \<times> bool \<Rightarrow> AccessPoint \<times> message list" where
  "stamp_change current_time_minutes s =
     (case s of (ap, changed) \<Rightarrow>
        if changed
        then (ap\<lparr>last_change_time_minutes := current_time_minutes\<rparr>, [])
        else (ap, [Info_No_Change]))"

text \<open>
  \<^verbatim>\<open>process_request\<close>, rule by rule in the order of the source. The inner \<open>case\<close> of
  rule 3 is the test of lines 83 to 85: it yields the amount of the power change
  when a power is requested and the amount is below the threshold.
\<close>

definition process_request ::
  "network_state \<Rightarrow> string \<Rightarrow> ChangeRequest \<Rightarrow> cint \<Rightarrow> bool \<Rightarrow> outcome" where
  "process_request network_state ap_id request current_time_minutes is_peak_hour =
     (case network_state ap_id of
        None \<Rightarrow>
          \<lparr>returned = False, printed = [Reject_Not_Found ap_id], state_after = network_state\<rparr>
      | Some ap \<Rightarrow>
          if is_peak_hour \<and> \<not> is_emergency request then
            \<lparr>returned = False,
             printed = [Processing_Request ap_id current_time_minutes, Reject_Time_Window],
             state_after = network_state\<rparr>
          else
            let time_since_last_change = current_time_minutes - last_change_time_minutes ap in
            if time_since_last_change <s CHANGE_BUDGET_MINUTES then
              \<lparr>returned = False,
               printed = [Processing_Request ap_id current_time_minutes,
                          Reject_Budget time_since_last_change],
               state_after = network_state\<rparr>
            else
              (case (case new_power_db request of
                       Some p \<Rightarrow>
                         let power_change_amount = std_abs (p - power_db ap) in
                         if power_change_amount <s HYSTERESIS_THRESHOLD_DB
                         then Some power_change_amount else None
                     | None \<Rightarrow> None) of
                 Some power_change_amount \<Rightarrow>
                   \<lparr>returned = False,
                    printed = [Processing_Request ap_id current_time_minutes,
                               Reject_Hysteresis power_change_amount],
                    state_after = network_state\<rparr>
               | None \<Rightarrow>
                   (case apply_channel request (ap, False) of (s1, out1) \<Rightarrow>
                    case apply_power request s1 of (s2, out2) \<Rightarrow>
                    case stamp_change current_time_minutes s2 of (ap', out3) \<Rightarrow>
                      \<lparr>returned = True,
                       printed = [Processing_Request ap_id current_time_minutes,
                                  Accept_All_Passed] @ out1 @ out2 @ out3,
                       state_after = network_state(ap_id \<mapsto> ap')\<rparr>)))"

text \<open>The device and the first request of the tests in \<^verbatim>\<open>main\<close>.\<close>

definition ap1 :: AccessPoint where
  "ap1 = \<lparr>id_ap = ''AP-001'', channel = 6, power_db = 20, last_change_time_minutes = 0\<rparr>"

definition req1 :: ChangeRequest where
  "req1 = \<lparr>new_channel = Some 11, new_power_db = None, is_emergency = False\<rparr>"

text \<open>The record as the second test leaves it, and the requests of tests 3, 4 and 6.\<close>

definition ap1_at_250 :: AccessPoint where
  "ap1_at_250 =
     \<lparr>id_ap = ''AP-001'', channel = 11, power_db = 20, last_change_time_minutes = 250\<rparr>"

definition req3 :: ChangeRequest where
  "req3 = \<lparr>new_channel = None, new_power_db = Some 21, is_emergency = False\<rparr>"

definition req4 :: ChangeRequest where
  "req4 = \<lparr>new_channel = None, new_power_db = Some 22, is_emergency = False\<rparr>"

definition req6 :: ChangeRequest where
  "req6 = \<lparr>new_channel = Some 1, new_power_db = None, is_emergency = True\<rparr>"

section \<open>Arithmetic of the model\<close>

lemmas eval_defs = process_request_def apply_channel_def apply_power_def stamp_change_def
  std_abs_def ap1_def req1_def ap1_at_250_def req3_def req4_def req6_def
  CHANGE_BUDGET_MINUTES_def HYSTERESIS_THRESHOLD_DB_def
  default_last_change_time_minutes_def get_ap_state_def add_ap_def word_sless_alt Let_def

lemma sint_budget: "sint CHANGE_BUDGET_MINUTES = 240"
  by (simp add: CHANGE_BUDGET_MINUTES_def)

lemma sint_default: "sint default_last_change_time_minutes = - 241"
  by (simp add: default_last_change_time_minutes_def CHANGE_BUDGET_MINUTES_def)

text \<open>A difference that stays inside the range of \<^verbatim>\<open>int\<close> is the difference of the integers.\<close>

lemma sint_sub_in_range:
  fixes a b :: cint
  assumes "- 2147483648 \<le> sint a - sint b" and "sint a - sint b \<le> 2147483647"
  shows "sint (a - b) = sint a - sint b"
  using assms by (simp add: sint_word_ariths signed_take_bit_int_eq_self)

lemma std_abs_in_range:
  assumes "sint x \<noteq> - 2147483648"
  shows "sint (std_abs x) = \<bar>sint x\<bar>"
proof -
  have "- 2147483648 \<le> sint x" "sint x < 2147483648"
    using sint_range_size [of x] by (simp_all add: word_size)
  then have "sint (- x) = - sint x"
    using assms by (simp add: sint_word_ariths signed_take_bit_int_eq_self)
  then show ?thesis
    by (auto simp add: std_abs_def word_sless_alt)
qed

text \<open>
  The two tests of the rules, read on the integers: the budget test whenever the
  elapsed time fits an \<^verbatim>\<open>int\<close>, the hysteresis test whenever the two powers are less
  than 2 apart.
\<close>

lemma budget_test_in_range:
  assumes "- 2147483648 \<le> sint current_time_minutes - sint l"
    and "sint current_time_minutes - sint l \<le> 2147483647"
  shows "current_time_minutes - l <s CHANGE_BUDGET_MINUTES
           \<longleftrightarrow> sint current_time_minutes - sint l < 240"
  using assms by (simp add: word_sless_alt sint_budget sint_sub_in_range)

lemma hysteresis_test_small:
  assumes "\<bar>sint p - sint q\<bar> < 2"
  shows "std_abs (p - q) <s HYSTERESIS_THRESHOLD_DB"
proof -
  have d: "sint (p - q) = sint p - sint q"
    using assms by (intro sint_sub_in_range) auto
  have "sint (- (p - q)) = - sint (p - q)"
    using assms d by (simp add: sint_word_ariths signed_take_bit_int_eq_self)
  then show ?thesis
    using assms d by (auto simp add: std_abs_def HYSTERESIS_THRESHOLD_DB_def word_sless_alt)
qed



section \<open>Registration\<close>

text \<open>
  C7. \<^verbatim>\<open>add_ap\<close> is a total function: it has no failing branch. After it, the map holds
  the supplied record under the record's identifier (so a record that was there
  before, with its last change time, is gone), the identifier is the only new key, and
  the entry under every other identifier is the one from before.
\<close>

theorem add_ap_replaces:
  "get_ap_state (snd (add_ap network_state ap)) (id_ap ap) = Inr ap
   \<and> dom (snd (add_ap network_state ap)) = insert (id_ap ap) (dom network_state)
   \<and> (\<forall>k. k \<noteq> id_ap ap \<longrightarrow> snd (add_ap network_state ap) k = network_state k)"
  by (simp add: add_ap_def get_ap_state_def)

theorem add_ap_replaces_witness:
  "get_ap_state (snd (add_ap [''AP-001'' \<mapsto> ap1, ''AP-002'' \<mapsto> ap1\<lparr>id_ap := ''AP-002''\<rparr>]
       \<lparr>id_ap = ''AP-001'', channel = 1, power_db = 10, last_change_time_minutes = 777\<rparr>)) ''AP-001''
     = Inr \<lparr>id_ap = ''AP-001'', channel = 1, power_db = 10, last_change_time_minutes = 777\<rparr>
   \<and> ''AP-002'' \<noteq> ''AP-001''
   \<and> snd (add_ap [''AP-001'' \<mapsto> ap1, ''AP-002'' \<mapsto> ap1\<lparr>id_ap := ''AP-002''\<rparr>]
       \<lparr>id_ap = ''AP-001'', channel = 1, power_db = 10, last_change_time_minutes = 777\<rparr>) ''AP-002''
     = Some (ap1\<lparr>id_ap := ''AP-002''\<rparr>)"
  using add_ap_replaces [of "[''AP-001'' \<mapsto> ap1, ''AP-002'' \<mapsto> ap1\<lparr>id_ap := ''AP-002''\<rparr>]"
      "\<lparr>id_ap = ''AP-001'', channel = 1, power_db = 10, last_change_time_minutes = 777\<rparr>"]
  by simp


section \<open>The policies\<close>

text \<open>
  The budget rule on the test the code makes: when the time-window rule does not fire
  and the wrapped difference is below \<open>CHANGE_BUDGET_MINUTES\<close>, the request is turned
  down by the budget rule.
\<close>

lemma budget_test_rejects:
  assumes "network_state ap_id = Some ap"
    and "is_emergency request \<or> \<not> is_peak_hour"
    and "current_time_minutes - last_change_time_minutes ap <s CHANGE_BUDGET_MINUTES"
  shows "process_request network_state ap_id request current_time_minutes is_peak_hour =
           \<lparr>returned = False,
            printed = [Processing_Request ap_id current_time_minutes,
                       Reject_Budget (current_time_minutes - last_change_time_minutes ap)],
            state_after = network_state\<rparr>"
  using assms by (auto simp add: process_request_def Let_def)

text \<open>
  C1. For a registered device, when the time-window rule does not fire (the request is
  an emergency, or it is not peak hour), the elapsed time, read on the integers as the
  current time less the last change time, is below 240, and that elapsed time is not
  below the least \<^verbatim>\<open>int\<close>, - 2147483648 (so that the subtraction of the code does not
  overflow): the call returns false, the line it prints is the one of the budget rule
  with that elapsed time, and the map is the one from before. Nothing is assumed of the
  other fields of the request: an emergency does not get past this rule.
\<close>

theorem budget_rejects_in_range:
  assumes "network_state ap_id = Some ap"
    and "is_emergency request \<or> \<not> is_peak_hour"
    and "sint current_time_minutes - sint (last_change_time_minutes ap) < 240"
    and "- 2147483648 \<le> sint current_time_minutes - sint (last_change_time_minutes ap)"
  shows "process_request network_state ap_id request current_time_minutes is_peak_hour =
           \<lparr>returned = False,
            printed = [Processing_Request ap_id current_time_minutes,
                       Reject_Budget (current_time_minutes - last_change_time_minutes ap)],
            state_after = network_state\<rparr>
       \<and> sint (current_time_minutes - last_change_time_minutes ap)
           = sint current_time_minutes - sint (last_change_time_minutes ap)"
proof -
  have d: "sint (current_time_minutes - last_change_time_minutes ap)
             = sint current_time_minutes - sint (last_change_time_minutes ap)"
    using assms(3,4) by (intro sint_sub_in_range) auto
  then have "current_time_minutes - last_change_time_minutes ap <s CHANGE_BUDGET_MINUTES"
    using assms(3) by (simp add: word_sless_alt sint_budget)
  with assms(1,2) d show ?thesis
    by (simp add: budget_test_rejects)
qed

theorem budget_rejects_in_range_witness:
  "[''AP-001'' \<mapsto> ap1] ''AP-001'' = Some ap1
   \<and> is_emergency (req1\<lparr>is_emergency := True\<rparr>)
   \<and> sint (100 :: cint) - sint (last_change_time_minutes ap1) < 240
   \<and> - 2147483648 \<le> sint (100 :: cint) - sint (last_change_time_minutes ap1)
   \<and> process_request [''AP-001'' \<mapsto> ap1] ''AP-001'' (req1\<lparr>is_emergency := True\<rparr>) 100 True =
        \<lparr>returned = False,
         printed = [Processing_Request ''AP-001'' 100, Reject_Budget 100],
         state_after = [''AP-001'' \<mapsto> ap1]\<rparr>"
proof -
  have reg: "[''AP-001'' \<mapsto> ap1] ''AP-001'' = Some ap1"
    by simp
  have em: "is_emergency (req1\<lparr>is_emergency := True\<rparr>) \<or> \<not> True"
    by simp
  have soon: "sint (100 :: cint) - sint (last_change_time_minutes ap1) < 240"
    and fits: "- 2147483648 \<le> sint (100 :: cint) - sint (last_change_time_minutes ap1)"
    by (simp_all add: ap1_def)
  from budget_rejects_in_range [of "[''AP-001'' \<mapsto> ap1]" "''AP-001''" ap1
      "req1\<lparr>is_emergency := True\<rparr>" True 100] reg em soon fits
  have "process_request [''AP-001'' \<mapsto> ap1] ''AP-001'' (req1\<lparr>is_emergency := True\<rparr>) 100 True =
        \<lparr>returned = False,
         printed = [Processing_Request ''AP-001'' 100, Reject_Budget 100],
         state_after = [''AP-001'' \<mapsto> ap1]\<rparr>"
    by (simp add: ap1_def)
  with reg em soon fits show ?thesis by simp
qed

text \<open>
  With the last change at time 1 and the current time - 2147483648, the elapsed time
  on the integers is - 2147483649, below 240, and it is not peak hour. The subtraction
  of the code does not fit an \<^verbatim>\<open>int\<close>; the wrapped value is 2147483647, the budget rule
  does not fire, and the request is accepted and applied.
\<close>

theorem budget_rejects_counterexample:
  "[''AP-001'' \<mapsto> ap1\<lparr>last_change_time_minutes := 1\<rparr>] ''AP-001''
     = Some (ap1\<lparr>last_change_time_minutes := 1\<rparr>)
   \<and> sint (- 2147483648 :: cint) - sint (last_change_time_minutes (ap1\<lparr>last_change_time_minutes := 1\<rparr>))
       = - 2147483649
   \<and> sint (- 2147483648 - last_change_time_minutes (ap1\<lparr>last_change_time_minutes := 1\<rparr>))
       = 2147483647
   \<and> process_request [''AP-001'' \<mapsto> ap1\<lparr>last_change_time_minutes := 1\<rparr>] ''AP-001'' req1
        (- 2147483648) False
      = \<lparr>returned = True,
          printed = [Processing_Request ''AP-001'' (- 2147483648), Accept_All_Passed,
                     Applied_Channel 11],
          state_after =
            [''AP-001'' \<mapsto> \<lparr>id_ap = ''AP-001'', channel = 11, power_db = 20,
                                last_change_time_minutes = - 2147483648\<rparr>]\<rparr>"
  by (simp add: eval_defs)

text \<open>
  C2. For a registered device, a request that is not an emergency and arrives at peak
  hour is turned down by the time-window rule: the call returns false, prints the line
  of that rule and leaves the map alone. No hypothesis is made on the elapsed time or
  on the requested power, so the rule wins over the budget and hysteresis rules. An
  emergency request never gets the line of the time-window rule.
\<close>

theorem peak_hour_rejects:
  "(network_state ap_id = Some ap \<and> is_peak_hour \<and> \<not> is_emergency request \<longrightarrow>
      process_request network_state ap_id request current_time_minutes is_peak_hour =
        \<lparr>returned = False,
         printed = [Processing_Request ap_id current_time_minutes, Reject_Time_Window],
         state_after = network_state\<rparr>)
   \<and> (is_emergency request \<longrightarrow>
        Reject_Time_Window \<notin>
          set (printed (process_request network_state ap_id request
                          current_time_minutes is_peak_hour)))"
  by (auto simp add: process_request_def Let_def apply_channel_def apply_power_def
      stamp_change_def split: option.splits prod.splits if_splits)

theorem peak_hour_rejects_witness:
  "process_request [''AP-001'' \<mapsto> ap1] ''AP-001'' req1 100 True =
     \<lparr>returned = False,
      printed = [Processing_Request ''AP-001'' 100, Reject_Time_Window],
      state_after = [''AP-001'' \<mapsto> ap1]\<rparr>
   \<and> 100 - last_change_time_minutes ap1 <s CHANGE_BUDGET_MINUTES
   \<and> is_emergency req6
   \<and> Reject_Time_Window \<notin>
       set (printed (process_request [''AP-001'' \<mapsto> ap1_at_250] ''AP-001'' req6 800 True))"
proof -
  have reg: "[''AP-001'' \<mapsto> ap1] ''AP-001'' = Some ap1 \<and> True \<and> \<not> is_emergency req1"
    by (simp add: req1_def)
  have em: "is_emergency req6"
    by (simp add: req6_def)
  have soon: "100 - last_change_time_minutes ap1 <s CHANGE_BUDGET_MINUTES"
    by (simp add: ap1_def CHANGE_BUDGET_MINUTES_def word_sless_alt)
  from peak_hour_rejects [of "[''AP-001'' \<mapsto> ap1]" "''AP-001''" ap1 True req1 100] reg
  have blocked: "process_request [''AP-001'' \<mapsto> ap1] ''AP-001'' req1 100 True =
     \<lparr>returned = False,
      printed = [Processing_Request ''AP-001'' 100, Reject_Time_Window],
      state_after = [''AP-001'' \<mapsto> ap1]\<rparr>"
    by blast
  from peak_hour_rejects [of "[''AP-001'' \<mapsto> ap1_at_250]" "''AP-001''" ap1_at_250 True req6 800] em
  have "Reject_Time_Window \<notin>
       set (printed (process_request [''AP-001'' \<mapsto> ap1_at_250] ''AP-001'' req6 800 True))"
    by blast
  with blocked soon em show ?thesis by blast
qed



section \<open>Rejection and acceptance\<close>

text \<open>
  C4. For a registered device, when the call returns false the map after the call is
  the map from before, so \<^verbatim>\<open>get_ap_state\<close> gives the record from before the request,
  with its identifier, channel, power and last change time.
\<close>

theorem rejection_keeps_record:
  assumes "network_state ap_id = Some ap"
    and "\<not> returned (process_request network_state ap_id request current_time_minutes is_peak_hour)"
  shows "state_after (process_request network_state ap_id request current_time_minutes is_peak_hour)
           = network_state
       \<and> get_ap_state
           (state_after (process_request network_state ap_id request current_time_minutes is_peak_hour))
           ap_id = Inr ap"
  using assms
  by (auto simp add: process_request_def Let_def get_ap_state_def
      split: option.splits prod.splits if_splits)

theorem rejection_keeps_record_witness:
  "\<not> returned (process_request [''AP-001'' \<mapsto> ap1_at_250] ''AP-001'' req3 500 False)
   \<and> get_ap_state
        (state_after (process_request [''AP-001'' \<mapsto> ap1_at_250] ''AP-001'' req3 500 False))
        ''AP-001''
      = Inr \<lparr>id_ap = ''AP-001'', channel = 11, power_db = 20, last_change_time_minutes = 250\<rparr>"
proof -
  have reg: "[''AP-001'' \<mapsto> ap1_at_250] ''AP-001'' = Some ap1_at_250"
    by simp
  have rej: "\<not> returned (process_request [''AP-001'' \<mapsto> ap1_at_250] ''AP-001'' req3 500 False)"
    by (simp add: eval_defs)
  from rejection_keeps_record [of "[''AP-001'' \<mapsto> ap1_at_250]" "''AP-001''" ap1_at_250
      req3 500 False] reg rej
  show ?thesis by (simp add: ap1_at_250_def get_ap_state_def)
qed



section \<open>Unknown devices\<close>

text \<open>
  C6. \<^verbatim>\<open>process_request\<close> has no failing branch and returns a \<^verbatim>\<open>bool\<close>. For an identifier
  that is not in the map it returns false, the value it returns for a request turned
  down by a rule, prints the one line "not found", which is none of the lines of the
  three rules, and leaves the map alone; \<^verbatim>\<open>get_ap_state\<close> is the operation that throws
  on such an identifier. For an identifier in the map the "not found" line is never
  printed.
\<close>

theorem not_found_returns_false:
  "(network_state ap_id = None \<longrightarrow>
      process_request network_state ap_id request current_time_minutes is_peak_hour
        = \<lparr>returned = False, printed = [Reject_Not_Found ap_id], state_after = network_state\<rparr>
      \<and> set (printed (process_request network_state ap_id request current_time_minutes is_peak_hour))
          \<inter> ({Reject_Time_Window} \<union> range Reject_Budget \<union> range Reject_Hysteresis) = {}
      \<and> get_ap_state network_state ap_id = Inl out_of_range)
   \<and> (network_state ap_id \<noteq> None \<longrightarrow>
        Reject_Not_Found k \<notin>
          set (printed (process_request network_state ap_id request
                          current_time_minutes is_peak_hour)))"
  by (auto simp add: process_request_def get_ap_state_def Let_def apply_channel_def
      apply_power_def stamp_change_def split: option.splits prod.splits if_splits)

theorem not_found_returns_false_witness:
  "process_request Map.empty ''AP-404'' req1 100 False
     = \<lparr>returned = False, printed = [Reject_Not_Found ''AP-404''], state_after = Map.empty\<rparr>
   \<and> get_ap_state Map.empty ''AP-404'' = Inl out_of_range
   \<and> Reject_Not_Found ''AP-001'' \<notin>
       set (printed (process_request [''AP-001'' \<mapsto> ap1] ''AP-001'' req1 100 False))"
proof -
  have unknown: "(Map.empty :: network_state) ''AP-404'' = None"
    and known: "[''AP-001'' \<mapsto> ap1] ''AP-001'' \<noteq> None"
    by simp_all
  from not_found_returns_false [of Map.empty "''AP-404''" req1 100 False] unknown
  have a: "process_request Map.empty ''AP-404'' req1 100 False
     = \<lparr>returned = False, printed = [Reject_Not_Found ''AP-404''], state_after = Map.empty\<rparr>
   \<and> get_ap_state Map.empty ''AP-404'' = Inl out_of_range"
    by blast
  from not_found_returns_false [of "[''AP-001'' \<mapsto> ap1]" "''AP-001''" req1 100 False "''AP-001''"]
    known
  have "Reject_Not_Found ''AP-001'' \<notin>
       set (printed (process_request [''AP-001'' \<mapsto> ap1] ''AP-001'' req1 100 False))"
    by blast
  with a show ?thesis by blast
qed

text \<open>
  The value returned for an unknown device is the value returned for a request that
  the time-window, the budget or the hysteresis rule turned down.
\<close>

theorem not_found_counterexample:
  "returned (process_request Map.empty ''AP-404'' req1 100 False)
     = returned (process_request [''AP-001'' \<mapsto> ap1] ''AP-001'' req1 100 True)
   \<and> printed (process_request [''AP-001'' \<mapsto> ap1] ''AP-001'' req1 100 True)
       = [Processing_Request ''AP-001'' 100, Reject_Time_Window]
   \<and> returned (process_request Map.empty ''AP-404'' req1 100 False)
       = returned (process_request [''AP-001'' \<mapsto> ap1] ''AP-001'' req1 100 False)
   \<and> printed (process_request [''AP-001'' \<mapsto> ap1] ''AP-001'' req1 100 False)
       = [Processing_Request ''AP-001'' 100, Reject_Budget 100]
   \<and> returned (process_request Map.empty ''AP-404'' req1 100 False)
       = returned (process_request [''AP-001'' \<mapsto> ap1_at_250] ''AP-001'' req3 500 False)
   \<and> printed (process_request [''AP-001'' \<mapsto> ap1_at_250] ''AP-001'' req3 500 False)
       = [Processing_Request ''AP-001'' 500, Reject_Hysteresis 1]"
  by (simp add: eval_defs)

section \<open>The default last change time\<close>

text \<open>
  C8. For a device whose last change time is the default \<open>- CHANGE_BUDGET_MINUTES - 1\<close>
  and a current time from 0 to 2147483406 (the largest \<^verbatim>\<open>int\<close> less 241), the elapsed
  time the code computes is the current time plus 241, the budget test does not
  fire, and the call prints no line of the budget rule.
\<close>

theorem default_timestamp_passes_budget:
  assumes "network_state ap_id = Some ap"
    and "last_change_time_minutes ap = default_last_change_time_minutes"
    and "0 \<le> sint current_time_minutes"
    and "sint current_time_minutes \<le> 2147483406"
  shows "sint (current_time_minutes - last_change_time_minutes ap) = sint current_time_minutes + 241
       \<and> \<not> current_time_minutes - last_change_time_minutes ap <s CHANGE_BUDGET_MINUTES
       \<and> (\<forall>d. Reject_Budget d \<notin>
             set (printed (process_request network_state ap_id request
                             current_time_minutes is_peak_hour)))"
proof -
  have d: "sint (current_time_minutes - last_change_time_minutes ap) = sint current_time_minutes + 241"
    using assms by (simp add: sint_sub_in_range sint_default)
  then have b: "\<not> current_time_minutes - last_change_time_minutes ap <s CHANGE_BUDGET_MINUTES"
    using assms by (simp add: word_sless_alt sint_budget)
  have "Reject_Budget d \<notin> set (printed (process_request network_state ap_id request
                             current_time_minutes is_peak_hour))" for d
    using assms(1) b
    by (auto simp add: process_request_def Let_def apply_channel_def apply_power_def
        stamp_change_def split: option.splits prod.splits if_splits)
  with d b show ?thesis by blast
qed

theorem default_timestamp_passes_budget_witness:
  "sint (2147483406 - default_last_change_time_minutes) = 2147483647
   \<and> \<not> 2147483406 - default_last_change_time_minutes <s CHANGE_BUDGET_MINUTES
   \<and> Reject_Budget 0 \<notin>
       set (printed (process_request
              [''AP-001'' \<mapsto> ap1\<lparr>last_change_time_minutes := default_last_change_time_minutes\<rparr>]
              ''AP-001'' req1 2147483406 False))"
proof -
  have reg: "[''AP-001'' \<mapsto> ap1\<lparr>last_change_time_minutes := default_last_change_time_minutes\<rparr>]
               ''AP-001''
             = Some (ap1\<lparr>last_change_time_minutes := default_last_change_time_minutes\<rparr>)"
    and dflt: "last_change_time_minutes
                 (ap1\<lparr>last_change_time_minutes := default_last_change_time_minutes\<rparr>)
               = default_last_change_time_minutes"
    and lo: "0 \<le> sint (2147483406 :: cint)"
    and hi: "sint (2147483406 :: cint) \<le> 2147483406"
    by simp_all
  from default_timestamp_passes_budget
    [of "[''AP-001'' \<mapsto> ap1\<lparr>last_change_time_minutes := default_last_change_time_minutes\<rparr>]"
      "''AP-001''" "ap1\<lparr>last_change_time_minutes := default_last_change_time_minutes\<rparr>"
      2147483406 req1 False] reg dflt lo hi
  show ?thesis by simp
qed

text \<open>
  At the current time 2147483647, which is not negative, the elapsed time of a device
  registered with the default last change time does not fit an \<^verbatim>\<open>int\<close>; the wrapped
  value is negative and the request is turned down by the budget rule.
\<close>

theorem default_timestamp_counterexample:
  "0 \<le> sint (2147483647 :: cint)
   \<and> process_request
        (snd (add_ap Map.empty \<lparr>id_ap = ''AP-001'', channel = 6, power_db = 20,
                last_change_time_minutes = default_last_change_time_minutes\<rparr>))
        ''AP-001'' req1 2147483647 False
      = \<lparr>returned = False,
          printed = [Processing_Request ''AP-001'' 2147483647, Reject_Budget (- 2147483408)],
          state_after = snd (add_ap Map.empty \<lparr>id_ap = ''AP-001'', channel = 6, power_db = 20,
                last_change_time_minutes = default_last_change_time_minutes\<rparr>)\<rparr>"
  by (simp add: eval_defs)

section \<open>Independence\<close>

text \<open>
  C9. Whatever a call of \<^verbatim>\<open>process_request\<close> for \<open>ap_id\<close> returns, the entry of the map
  under every other identifier is the one from before the call.
\<close>

theorem other_devices_untouched:
  "k \<noteq> ap_id \<Longrightarrow>
   state_after (process_request network_state ap_id request current_time_minutes is_peak_hour) k
     = network_state k"
  by (auto simp add: process_request_def Let_def
      split: option.splits prod.splits if_splits)

theorem other_devices_untouched_witness:
  "''AP-002'' \<noteq> ''AP-001''
   \<and> returned (process_request
         [''AP-001'' \<mapsto> ap1, ''AP-002'' \<mapsto> ap1\<lparr>id_ap := ''AP-002''\<rparr>] ''AP-001'' req1 250 False)
   \<and> state_after (process_request
         [''AP-001'' \<mapsto> ap1, ''AP-002'' \<mapsto> ap1\<lparr>id_ap := ''AP-002''\<rparr>] ''AP-001'' req1 250 False)
       ''AP-002''
      = Some (ap1\<lparr>id_ap := ''AP-002''\<rparr>)"
proof -
  have other: "''AP-002'' \<noteq> ''AP-001''"
    by simp
  have acc: "returned (process_request
         [''AP-001'' \<mapsto> ap1, ''AP-002'' \<mapsto> ap1\<lparr>id_ap := ''AP-002''\<rparr>] ''AP-001'' req1 250 False)"
    by (simp add: eval_defs)
  from other_devices_untouched [OF other,
      of "[''AP-001'' \<mapsto> ap1, ''AP-002'' \<mapsto> ap1\<lparr>id_ap := ''AP-002''\<rparr>]" req1 250 False]
  have "state_after (process_request
         [''AP-001'' \<mapsto> ap1, ''AP-002'' \<mapsto> ap1\<lparr>id_ap := ''AP-002''\<rparr>] ''AP-001'' req1 250 False)
       ''AP-002''
      = Some (ap1\<lparr>id_ap := ''AP-002''\<rparr>)"
    by simp
  with other acc show ?thesis by blast
qed

text \<open>
  C10. Two requests that differ in the channel field only (any two values of the
  optional, present or absent), made at the same time with the same peak-hour flag on
  the same map, get the same return value, and when that value is false the same
  printed lines, hence the same rule named in them.
\<close>

theorem decision_ignores_channel:
  "returned (process_request network_state ap_id (request\<lparr>new_channel := c1\<rparr>)
               current_time_minutes is_peak_hour)
     = returned (process_request network_state ap_id (request\<lparr>new_channel := c2\<rparr>)
                   current_time_minutes is_peak_hour)
   \<and> (\<not> returned (process_request network_state ap_id (request\<lparr>new_channel := c1\<rparr>)
                    current_time_minutes is_peak_hour) \<longrightarrow>
        printed (process_request network_state ap_id (request\<lparr>new_channel := c1\<rparr>)
                   current_time_minutes is_peak_hour)
          = printed (process_request network_state ap_id (request\<lparr>new_channel := c2\<rparr>)
                       current_time_minutes is_peak_hour))"
  by (auto simp add: process_request_def Let_def
      split: option.splits prod.splits if_splits)

theorem decision_ignores_channel_witness:
  "\<not> returned (process_request [''AP-001'' \<mapsto> ap1_at_250] ''AP-001''
                 (req3\<lparr>new_channel := Some 1\<rparr>) 500 False)
   \<and> \<not> returned (process_request [''AP-001'' \<mapsto> ap1_at_250] ''AP-001''
                   (req3\<lparr>new_channel := None\<rparr>) 500 False)
   \<and> printed (process_request [''AP-001'' \<mapsto> ap1_at_250] ''AP-001''
                (req3\<lparr>new_channel := Some 1\<rparr>) 500 False)
      = printed (process_request [''AP-001'' \<mapsto> ap1_at_250] ''AP-001''
                   (req3\<lparr>new_channel := None\<rparr>) 500 False)"
proof -
  have rej: "\<not> returned (process_request [''AP-001'' \<mapsto> ap1_at_250] ''AP-001''
                 (req3\<lparr>new_channel := Some 1\<rparr>) 500 False)"
    by (simp add: eval_defs)
  from decision_ignores_channel [where network_state = "[''AP-001'' \<mapsto> ap1_at_250]"
      and ap_id = "''AP-001''" and request = req3 and ?c1.0 = "Some 1" and ?c2.0 = None
      and current_time_minutes = 500 and is_peak_hour = False] rej
  show ?thesis by blast
qed

end
